theory Spec2Isabelle
  imports Complex_Main
begin

section \<open>Decision policy (app/core/workflow.py, app/constants.py)\<close>

text \<open>
  Scores are Python floats. They are modelled as real numbers: the decision policy only
  compares a score with a literal threshold, and the evaluators only add and divide.
  Rounding of binary floating point is outside the model.
\<close>

datatype EvaluationAction = KEEP | REMOVE | MONITOR

text \<open>The string value of each member of the enum (\<open>action.value\<close>).\<close>

fun action_value :: "EvaluationAction \<Rightarrow> string" where
  "action_value KEEP = ''keep''"
| "action_value REMOVE = ''remove''"
| "action_value MONITOR = ''monitor''"

text \<open>\<open>WorkflowController._determine_action\<close>: an if/elif chain, first match wins.\<close>

definition determine_action :: "real \<Rightarrow> real \<Rightarrow> EvaluationAction" where
  "determine_action engagement_score risk_score =
     (if engagement_score \<ge> 0.7 \<and> risk_score \<le> 0.3 then KEEP
      else if engagement_score \<ge> 0.5 \<and> risk_score \<le> 0.5 then MONITOR
      else if engagement_score \<le> 0.3 \<or> risk_score \<ge> 0.7 then REMOVE
      else MONITOR)"

subsection \<open>Strings: \<open>str.lower\<close> and the \<open>in\<close> operator\<close>

text \<open>
  A string is a list of 8-bit characters; the analysis text is taken to be ASCII, where
  \<open>str.lower\<close> maps the letters A to Z to a to z and leaves every other character as it is.
\<close>

definition lower_char :: "char \<Rightarrow> char" where
  "lower_char c =
     (let n = (of_char c :: nat) in if 65 \<le> n \<and> n \<le> 90 then char_of (n + 32) else c)"

definition lower :: "string \<Rightarrow> string" where
  "lower s = map lower_char s"

text \<open>\<open>needle in haystack\<close> on strings: the needle occurs as a contiguous run.\<close>

fun starts_with :: "string \<Rightarrow> string \<Rightarrow> bool" where
  "starts_with [] hay = True"
| "starts_with (c # cs) [] = False"
| "starts_with (c # cs) (h # hs) = (c = h \<and> starts_with cs hs)"

fun str_contains :: "string \<Rightarrow> string \<Rightarrow> bool" where
  "str_contains needle [] = (needle = [])"
| "str_contains needle (h # hs) = (starts_with needle (h # hs) \<or> str_contains needle hs)"

subsection \<open>Recommendations\<close>

definition low_engagement_notice :: string where
  "low_engagement_notice = ''Low engagement - Consider removing if no improvement''"

definition high_risk_notice :: string where
  "high_risk_notice = ''High risk - Monitor closely or remove''"

definition private_notice :: string where
  "private_notice = ''Private account - Consider impact on engagement''"

definition inactive_notice :: string where
  "inactive_notice = ''Inactive account - May be safe to remove''"

text \<open>
  \<open>WorkflowController._generate_recommendations\<close>: the list starts empty and each of the
  four \<open>if\<close> statements appends to it in turn.
\<close>

definition generate_recommendations :: "real \<Rightarrow> real \<Rightarrow> string \<Rightarrow> string list" where
  "generate_recommendations engagement_score risk_score analysis =
     (let recommendations = [];
          recommendations =
            (if engagement_score < 0.5 then recommendations @ [low_engagement_notice]
             else recommendations);
          recommendations =
            (if risk_score > 0.5 then recommendations @ [high_risk_notice]
             else recommendations);
          recommendations =
            (if str_contains ''private'' (lower analysis)
             then recommendations @ [private_notice] else recommendations);
          recommendations =
            (if str_contains ''inactive'' (lower analysis)
             then recommendations @ [inactive_notice] else recommendations)
      in recommendations)"

section \<open>Exceptions\<close>

text \<open>
  The exception classes the pipeline can meet, all below \<open>Exception\<close>. \<open>mro\<close> lists a
  class followed by its bases, as Python's method resolution order does; signals that derive
  from \<open>BaseException\<close> only (keyboard interrupt, task cancellation) are outside the model.
\<close>

datatype exc_class =
    Exception | ArithmeticError | ZeroDivisionError | LookupError | KeyError
  | OSError | ConnectionError | TimeoutError | ValueError | TypeError | AttributeError
  | RuntimeError

fun mro :: "exc_class \<Rightarrow> exc_class list" where
  "mro Exception = [Exception]"
| "mro ArithmeticError = [ArithmeticError, Exception]"
| "mro ZeroDivisionError = [ZeroDivisionError, ArithmeticError, Exception]"
| "mro LookupError = [LookupError, Exception]"
| "mro KeyError = [KeyError, LookupError, Exception]"
| "mro OSError = [OSError, Exception]"
| "mro ConnectionError = [ConnectionError, OSError, Exception]"
| "mro TimeoutError = [TimeoutError, OSError, Exception]"
| "mro ValueError = [ValueError, Exception]"
| "mro TypeError = [TypeError, Exception]"
| "mro AttributeError = [AttributeError, Exception]"
| "mro RuntimeError = [RuntimeError, Exception]"

text \<open>An exception object: its class and the argument it was raised with.\<close>

datatype pyexc = PyExc (exc_type: exc_class) (exc_arg: string)

text \<open>
  \<open>except exceptions as e\<close>, where \<open>exceptions\<close> is a class or a tuple of classes (here a
  list): the clause catches an instance of any listed class or of a subclass of one.
\<close>

definition except_matches :: "exc_class list \<Rightarrow> pyexc \<Rightarrow> bool" where
  "except_matches classes e = (\<exists>c \<in> set classes. c \<in> set (mro (exc_type e)))"

section \<open>Retry wrapper (app/utils/helpers.py)\<close>

text \<open>
  What the wrapper and the pipeline do besides returning is recorded as a list of events, in
  the order in which they happen. The text of a log message is not modelled.
\<close>

type_synonym username = string

datatype event =
    Invoke nat
  | LogWarning
  | LogError
  | OnRetry pyexc int
  | Sleep real
  | AuditLog username real real string string
  | ErrorLog username pyexc

text \<open>
  \<open>_calculate_delay\<close>. The value of \<open>random.uniform(0, 1)\<close> is the parameter \<open>jitter\<close>.
\<close>

definition calculate_delay :: "nat \<Rightarrow> real \<Rightarrow> real \<Rightarrow> real \<Rightarrow> real" where
  "calculate_delay attempt base_delay max_delay jitter =
     min (base_delay * (2 ^ attempt) + jitter) max_delay"

text \<open>
  The parameters of \<open>async_retry\<close>. A result of the wrapped coroutine is a \<open>'a option\<close>,
  \<open>None\<close> being Python's \<open>None\<close>. The callback \<open>on_retry\<close> returns the exception it raises,
  if it raises one; the predicates \<open>retry_on_result\<close> and \<open>retry_on_exception\<close> are taken
  to return a truth value. The \<open>logger\<close> parameter only selects where messages go.
\<close>

record 'a retry_config =
  max_attempts :: int
  base_delay :: real
  max_delay :: real
  exceptions :: "exc_class list"
  on_retry :: "(pyexc \<Rightarrow> int \<Rightarrow> pyexc option) option"
  retry_on_result :: "('a option \<Rightarrow> bool) option"
  retry_on_exception :: "(pyexc \<Rightarrow> bool) option"

text \<open>\<open>retry_on_result and retry_on_result(result)\<close>\<close>

definition result_flagged :: "'a retry_config \<Rightarrow> 'a option \<Rightarrow> bool" where
  "result_flagged cfg result =
     (case retry_on_result cfg of None \<Rightarrow> False | Some p \<Rightarrow> p result)"

text \<open>\<open>retry_on_exception and not retry_on_exception(e)\<close>\<close>

definition exception_rejected :: "'a retry_config \<Rightarrow> pyexc \<Rightarrow> bool" where
  "exception_rejected cfg e =
     (case retry_on_exception cfg of None \<Rightarrow> False | Some p \<Rightarrow> \<not> p e)"

text \<open>
  The \<open>if on_retry:\<close> block: the callback is called with the error and the 1-based attempt
  number; an exception it raises is logged and dropped.
\<close>

definition call_on_retry :: "'a retry_config \<Rightarrow> pyexc \<Rightarrow> int \<Rightarrow> event list" where
  "call_on_retry cfg e n =
     (case on_retry cfg of
        None \<Rightarrow> []
      | Some callback \<Rightarrow>
          (case callback e n of
             None \<Rightarrow> [OnRetry e n]
           | Some callback_error \<Rightarrow> [OnRetry e n, LogError]))"

text \<open>The outcome of a call: \<open>Inl\<close> the exception raised, \<open>Inr\<close> the value returned.\<close>

type_synonym 'a outcome = "pyexc + 'a option"

definition emit :: "event list \<Rightarrow> 'r \<times> event list \<Rightarrow> 'r \<times> event list" where
  "emit evs res = (fst res, evs @ snd res)"

text \<open>The statements after the \<open>for\<close> loop of \<open>wrapper\<close>.\<close>

definition after_loop :: "'a option \<Rightarrow> pyexc option \<Rightarrow> 'a outcome \<times> event list" where
  "after_loop last_result last_exception =
     (case last_result of
        Some v \<Rightarrow> (Inr (Some v), [])
      | None \<Rightarrow>
          (case last_exception of
             Some e \<Rightarrow> (Inl e, [])
           | None \<Rightarrow> (Inr None, [])))"

text \<open>
  The loop \<open>for attempt in range(max_attempts)\<close> of \<open>wrapper\<close>, from the iteration \<open>attempt\<close>
  on, with the values of \<open>last_result\<close> and \<open>last_exception\<close> at that point. \<open>func n\<close> is the
  outcome of the \<open>n\<close>-th invocation of the wrapped coroutine (from 0), and \<open>jitter n\<close> the
  random draw of the delay computed in iteration \<open>n\<close>. The result is the outcome of the
  wrapper and the events from this iteration on.
\<close>

function wrapper_loop ::
  "'a retry_config \<Rightarrow> (nat \<Rightarrow> 'a outcome) \<Rightarrow> (nat \<Rightarrow> real) \<Rightarrow> nat \<Rightarrow> 'a option \<Rightarrow> pyexc option
     \<Rightarrow> 'a outcome \<times> event list" where
  "wrapper_loop cfg func jitter attempt last_result last_exception =
     (if int attempt < max_attempts cfg then
        (case func attempt of
           Inr result \<Rightarrow>
             if result_flagged cfg result then
               if int attempt < max_attempts cfg - 1 then
                 emit [Invoke attempt, LogWarning,
                       Sleep (calculate_delay attempt (base_delay cfg) (max_delay cfg)
                                (jitter attempt))]
                   (wrapper_loop cfg func jitter (Suc attempt) result last_exception)
               else emit [Invoke attempt] (after_loop result last_exception)
             else (Inr result, [Invoke attempt])
         | Inl e \<Rightarrow>
             if except_matches (exceptions cfg) e then
               if exception_rejected cfg e then (Inl e, [Invoke attempt])
               else if int attempt < max_attempts cfg - 1 then
                 emit ([Invoke attempt, LogWarning] @ call_on_retry cfg e (int attempt + 1) @
                       [Sleep (calculate_delay attempt (base_delay cfg) (max_delay cfg)
                                 (jitter attempt))])
                   (wrapper_loop cfg func jitter (Suc attempt) last_result (Some e))
               else (Inl e, [Invoke attempt, LogError])
             else (Inl e, [Invoke attempt]))
      else after_loop last_result last_exception)"
  by pat_completeness auto
termination
  by (relation "measure (\<lambda>(cfg, func, jitter, attempt, last_result, last_exception).
        nat (max_attempts cfg - int attempt))") auto

declare wrapper_loop.simps [simp del]

text \<open>A call of the decorated coroutine: the loop from attempt 0, nothing remembered.\<close>

definition async_retry ::
  "'a retry_config \<Rightarrow> (nat \<Rightarrow> 'a outcome) \<Rightarrow> (nat \<Rightarrow> real) \<Rightarrow> 'a outcome \<times> event list" where
  "async_retry cfg func jitter = wrapper_loop cfg func jitter 0 None None"

text \<open>The calls of \<open>on_retry\<close> among the events, and the number of invocations.\<close>

fun on_retry_calls :: "event list \<Rightarrow> (pyexc \<times> int) list" where
  "on_retry_calls [] = []"
| "on_retry_calls (OnRetry e n # evs) = (e, n) # on_retry_calls evs"
| "on_retry_calls (ev # evs) = on_retry_calls evs"

fun invocations :: "event list \<Rightarrow> nat" where
  "invocations [] = 0"
| "invocations (Invoke n # evs) = Suc (invocations evs)"
| "invocations (ev # evs) = invocations evs"

fun sleeps :: "event list \<Rightarrow> real list" where
  "sleeps [] = []"
| "sleeps (Sleep d # evs) = d # sleeps evs"
| "sleeps (ev # evs) = sleeps evs"

text \<open>\<open>validate_required_fields\<close>: the fields of \<open>required_fields\<close> that are not keys of
  \<open>data\<close>, in order; \<open>ValueError\<close> when there is one.\<close>

fun join :: "string \<Rightarrow> string list \<Rightarrow> string" where
  "join sep [] = []"
| "join sep [x] = x"
| "join sep (x # y # ys) = x @ sep @ join sep (y # ys)"

definition validate_required_fields :: "(string \<rightharpoonup> 'v) \<Rightarrow> string list \<Rightarrow> pyexc + unit" where
  "validate_required_fields data required_fields =
     (let missing_fields = filter (\<lambda>field. data field = None) required_fields
      in if missing_fields \<noteq> []
         then Inl (PyExc ValueError (''Missing required fields: '' @ join '', '' missing_fields))
         else Inr ())"

text \<open>\<open>safe_divide\<close>: the quotient, and 0 where the division raises.\<close>

definition safe_divide :: "real \<Rightarrow> real \<Rightarrow> real" where
  "safe_divide numerator denominator = (if denominator = 0 then 0 else numerator / denominator)"

section \<open>Engagement checker (app/core/engagement.py)\<close>

text \<open>\<open>d.get(key, dflt)\<close> on a dictionary.\<close>

definition dict_get :: "('k \<rightharpoonup> 'v) \<Rightarrow> 'k \<Rightarrow> 'v \<Rightarrow> 'v" where
  "dict_get d key dflt = (case d key of None \<Rightarrow> dflt | Some v \<Rightarrow> v)"

text \<open>\<open>x / n\<close> with \<open>n\<close> a length: Python raises \<open>ZeroDivisionError\<close> when \<open>n\<close> is 0.\<close>

definition true_div :: "real \<Rightarrow> nat \<Rightarrow> pyexc + real" where
  "true_div x n =
     (if n = 0 then Inl (PyExc ZeroDivisionError ''division by zero'') else Inr (x / real n))"

text \<open>A point in time, in days.\<close>

type_synonym datetime = real

record EngagementResult =
  score :: real
  metrics :: "(string \<times> real) list"
  last_interaction :: "datetime option"
  interaction_count :: int

text \<open>
  The random numbers one call of \<open>check_engagement\<close> draws: the four default metrics
  (\<open>random.uniform(0, 1)\<close>), the age of the last interaction in days
  (\<open>random.randint(0, 30)\<close>) and the interaction count (\<open>random.randint(0, 10)\<close>).
\<close>

record engagement_draws =
  likes_draw :: real
  comments_draw :: real
  shares_draw :: real
  saves_draw :: real
  days_draw :: int
  count_draw :: int

text \<open>
  The body of \<open>EngagementChecker.check_engagement\<close>. \<open>mock_data\<close> maps a username to its
  metrics, a dictionary from metric name to value, kept as the list of its items (the keys
  of a dictionary are distinct); \<open>sum(mock_metrics.values()) / len(mock_metrics)\<close> adds
  the values and divides by their number.
\<close>

definition check_engagement_body ::
  "(username \<rightharpoonup> (string \<times> real) list) \<Rightarrow> datetime \<Rightarrow> engagement_draws \<Rightarrow> (string \<rightharpoonup> string)
     \<Rightarrow> EngagementResult outcome" where
  "check_engagement_body mock_data now draws follower_data =
     (let username = dict_get follower_data ''username'' ''Unknown'';
          mock_metrics = dict_get mock_data username
            [(''likes'', likes_draw draws), (''comments'', comments_draw draws),
             (''shares'', shares_draw draws), (''saves'', saves_draw draws)]
      in case true_div (sum_list (map snd mock_metrics)) (length mock_metrics) of
           Inl e \<Rightarrow> Inl e
         | Inr engagement_score \<Rightarrow>
             Inr (Some \<lparr>score = engagement_score, metrics = mock_metrics,
                        last_interaction = Some (now - real_of_int (days_draw draws)),
                        interaction_count = count_draw draws\<rparr>))"

text \<open>
  The decorator on both evaluators: \<open>@async_retry(max_attempts=3, base_delay=1.0,
  max_delay=10.0, exceptions=(ConnectionError, TimeoutError))\<close>, the rest at its default.
\<close>

definition evaluator_retry_config :: "'a retry_config" where
  "evaluator_retry_config =
     \<lparr>max_attempts = 3, base_delay = 1.0, max_delay = 10.0,
      exceptions = [ConnectionError, TimeoutError],
      on_retry = None, retry_on_result = None, retry_on_exception = None\<rparr>"

text \<open>The decorated \<open>check_engagement\<close>; \<open>draws n\<close> are the draws of its \<open>n\<close>-th invocation.\<close>

definition check_engagement ::
  "(username \<rightharpoonup> (string \<times> real) list) \<Rightarrow> datetime \<Rightarrow> (nat \<Rightarrow> engagement_draws) \<Rightarrow> (nat \<Rightarrow> real)
     \<Rightarrow> (string \<rightharpoonup> string) \<Rightarrow> EngagementResult outcome \<times> event list" where
  "check_engagement mock_data now draws jitter follower_data =
     async_retry evaluator_retry_config
       (\<lambda>n. check_engagement_body mock_data now (draws n) follower_data) jitter"

section \<open>Profile analyzer of the pipeline (app/core/profile.py)\<close>

record ProfileResult =
  risk_score :: real
  analysis :: string
  confidence :: real

text \<open>
  An object of the mock profile data; a field is \<open>None\<close> when the object lacks the key.
\<close>

record mock_profile_entry =
  risk_score_entry :: "real option"
  analysis_entry :: "string option"
  confidence_entry :: "real option"

record profile_draws =
  risk_draw :: real
  confidence_draw :: real

text \<open>\<open>d[key]\<close>: \<open>KeyError\<close> when the key is absent.\<close>

definition getitem :: "'v option \<Rightarrow> string \<Rightarrow> pyexc + 'v" where
  "getitem entry key = (case entry of None \<Rightarrow> Inl (PyExc KeyError key) | Some v \<Rightarrow> Inr v)"

definition analyze_profile_body ::
  "(username \<rightharpoonup> mock_profile_entry) \<Rightarrow> profile_draws \<Rightarrow> (string \<rightharpoonup> string)
     \<Rightarrow> ProfileResult outcome" where
  "analyze_profile_body mock_data draws follower_data =
     (let username = dict_get follower_data ''username'' ''Unknown'';
          mock_profile = dict_get mock_data username
            \<lparr>risk_score_entry = Some (risk_draw draws),
             analysis_entry = Some ''Standard profile with normal activity'',
             confidence_entry = Some (confidence_draw draws)\<rparr>
      in case getitem (risk_score_entry mock_profile) ''risk_score'' of
           Inl e \<Rightarrow> Inl e
         | Inr r \<Rightarrow>
             (case getitem (analysis_entry mock_profile) ''analysis'' of
                Inl e \<Rightarrow> Inl e
              | Inr a \<Rightarrow>
                  (case getitem (confidence_entry mock_profile) ''confidence'' of
                     Inl e \<Rightarrow> Inl e
                   | Inr c \<Rightarrow> Inr (Some \<lparr>risk_score = r, analysis = a, confidence = c\<rparr>))))"

definition analyze_profile ::
  "(username \<rightharpoonup> mock_profile_entry) \<Rightarrow> (nat \<Rightarrow> profile_draws) \<Rightarrow> (nat \<Rightarrow> real)
     \<Rightarrow> (string \<rightharpoonup> string) \<Rightarrow> ProfileResult outcome \<times> event list" where
  "analyze_profile mock_data draws jitter follower_data =
     async_retry evaluator_retry_config
       (\<lambda>n. analyze_profile_body mock_data (draws n) follower_data) jitter"

section \<open>Risk score of the AI analyzer (app/core/analyzer.py)\<close>

record ProfileMetrics =
  authenticity_score :: real
  engagement_potential :: real
  risk_level :: real
  interaction_pattern :: real
  account_age :: real

text \<open>The dictionary \<open>self.weights\<close>, with its four keys.\<close>

record risk_weights =
  activity :: real
  content :: real
  interaction :: real
  age :: real

definition default_weights :: risk_weights where
  "default_weights = \<lparr>activity = 0.3, content = 0.3, interaction = 0.2, age = 0.2\<rparr>"

text \<open>\<open>np.mean\<close> of a list of numbers.\<close>

definition np_mean :: "real list \<Rightarrow> real" where
  "np_mean xs = sum_list xs / real (length xs)"

definition calculate_risk_score :: "risk_weights \<Rightarrow> ProfileMetrics \<Rightarrow> real" where
  "calculate_risk_score weights m =
     (let scores =
        [authenticity_score m * activity weights,
         engagement_potential m * content weights,
         risk_level m * interaction weights,
         interaction_pattern m * interaction weights,
         account_age m * age weights]
      in np_mean scores)"

definition gather_metrics :: "string \<Rightarrow> ProfileMetrics" where
  "gather_metrics profile_id =
     \<lparr>authenticity_score = 0.5, engagement_potential = 0.6, risk_level = 0.4,
      interaction_pattern = 0.8, account_age = 0.9\<rparr>"

definition analyze_profile_risk :: "risk_weights \<Rightarrow> string \<Rightarrow> real" where
  "analyze_profile_risk weights profile_id =
     (let m = gather_metrics profile_id in calculate_risk_score weights m)"

text \<open>
  For comparison with \<open>calculate_risk_score\<close>, the combination the specification words: the
  weighted mean of four sub-signals (activity, content, interaction pattern, account age)
  under the four weights.
\<close>

definition spec_weighted_mean :: "risk_weights \<Rightarrow> real \<Rightarrow> real \<Rightarrow> real \<Rightarrow> real \<Rightarrow> real" where
  "spec_weighted_mean weights activity_signal content_signal interaction_signal age_signal =
     (activity weights * activity_signal + content weights * content_signal
        + interaction weights * interaction_signal + age weights * age_signal)
     / (activity weights + content weights + interaction weights + age weights)"

section \<open>Workflow controller (app/core/workflow.py)\<close>

text \<open>
  The fields of the dataclass \<open>AuditResult\<close>; \<open>audit_follower\<close> returns a dictionary with
  these six keys.
\<close>

record AuditResult =
  username :: string
  action :: string
  reason :: string
  engagement_score :: real
  risk_score :: real
  recommendations :: "string list"

text \<open>
  What a run of the pipeline reads from outside: the mock data of the two evaluators, the
  clock, and the random draws of each.
\<close>

record pipeline_env =
  engagement_mock_data :: "username \<rightharpoonup> (string \<times> real) list"
  profile_mock_data :: "username \<rightharpoonup> mock_profile_entry"
  clock :: datetime
  engagement_random :: "nat \<Rightarrow> engagement_draws"
  profile_random :: "nat \<Rightarrow> profile_draws"
  engagement_jitter :: "nat \<Rightarrow> real"
  profile_jitter :: "nat \<Rightarrow> real"

text \<open>Reading an attribute of \<open>None\<close>.\<close>

definition none_attribute_error :: "string \<Rightarrow> pyexc" where
  "none_attribute_error attr = PyExc AttributeError attr"

text \<open>
  \<open>WorkflowController.audit_follower\<close>. The \<open>try\<close> block runs the two evaluators in turn;
  \<open>except Exception\<close> logs the error against the username and raises it again.
\<close>

definition audit_follower ::
  "pipeline_env \<Rightarrow> (string \<rightharpoonup> string) \<Rightarrow> (pyexc + AuditResult) \<times> event list" where
  "audit_follower env follower_data =
     (let uname = dict_get follower_data ''username'' ''Unknown'';
          engagement_run = check_engagement (engagement_mock_data env) (clock env)
            (engagement_random env) (engagement_jitter env) follower_data
      in case fst engagement_run of
           Inl e \<Rightarrow> (Inl e, snd engagement_run @ [ErrorLog uname e])
         | Inr None \<Rightarrow>
             (Inl (none_attribute_error ''score''),
              snd engagement_run @ [ErrorLog uname (none_attribute_error ''score'')])
         | Inr (Some engagement_result) \<Rightarrow>
             (let e_score = score engagement_result;
                  profile_run = analyze_profile (profile_mock_data env) (profile_random env)
                    (profile_jitter env) follower_data
              in case fst profile_run of
                   Inl e \<Rightarrow>
                     (Inl e, snd engagement_run @ snd profile_run @ [ErrorLog uname e])
                 | Inr None \<Rightarrow>
                     (Inl (none_attribute_error ''risk_score''),
                      snd engagement_run @ snd profile_run @
                        [ErrorLog uname (none_attribute_error ''risk_score'')])
                 | Inr (Some profile_result) \<Rightarrow>
                     (let r_score = ProfileResult.risk_score profile_result;
                          act = determine_action e_score r_score;
                          recs = generate_recommendations e_score r_score
                                   (analysis profile_result)
                      in (Inr \<lparr>username = uname, action = action_value act,
                                reason = analysis profile_result,
                                engagement_score = e_score, risk_score = r_score,
                                recommendations = recs\<rparr>,
                          snd engagement_run @ snd profile_run @
                            [AuditLog uname e_score r_score (action_value act)
                               (analysis profile_result)]))))"

section \<open>Upload handling of the dashboard (app/ui/dashboard.py)\<close>

text \<open>
  An item of an uploaded JSON list: an object, kept as the dictionary of its fields, or
  anything else.
\<close>

datatype json_item = JsonObject "string \<rightharpoonup> string" | JsonOther

text \<open>
  \<open>process_json_data\<close>: the loop over \<open>data\<close> skips what is not a dictionary, raises
  \<open>ValueError\<close> at the first follower without the key \<open>username\<close>, and appends the others
  to \<open>processed_data\<close>. The message of the error also prints the follower, which is left
  out here.
\<close>

fun process_json_loop ::
  "(string \<rightharpoonup> string) list \<Rightarrow> json_item list \<Rightarrow> pyexc + (string \<rightharpoonup> string) list" where
  "process_json_loop processed_data [] = Inr processed_data"
| "process_json_loop processed_data (JsonOther # data) = process_json_loop processed_data data"
| "process_json_loop processed_data (JsonObject follower # data) =
     (if follower ''username'' = None
      then Inl (PyExc ValueError ''Missing username in follower data'')
      else process_json_loop (processed_data @ [follower]) data)"

definition process_json_data :: "json_item list \<Rightarrow> pyexc + (string \<rightharpoonup> string) list" where
  "process_json_data data = process_json_loop [] data"

section \<open>Notions used to state the properties\<close>

text \<open>
  Iteration \<open>i\<close> of the wrapper's loop ends in a retry: another iteration remains, and the
  invocation either returned a result that \<open>retry_on_result\<close> flags or raised an exception
  that the \<open>except\<close> clause catches and \<open>retry_on_exception\<close> does not reject.
\<close>

definition attempt_retried :: "'a retry_config \<Rightarrow> (nat \<Rightarrow> 'a outcome) \<Rightarrow> nat \<Rightarrow> bool" where
  "attempt_retried cfg func i =
     (int i < max_attempts cfg - 1 \<and>
      (case func i of
         Inr result \<Rightarrow> result_flagged cfg result
       | Inl e \<Rightarrow> except_matches (exceptions cfg) e \<and> \<not> exception_rejected cfg e))"

text \<open>
  A concrete environment of the pipeline: no mock data, so that both evaluators fall back on
  their random defaults, here fixed.
\<close>

definition example_env :: pipeline_env where
  "example_env =
     \<lparr>engagement_mock_data = Map.empty, profile_mock_data = Map.empty, clock = 0,
      engagement_random = (\<lambda>n. \<lparr>likes_draw = 0.9, comments_draw = 0.8, shares_draw = 0.7,
                                 saves_draw = 0.8, days_draw = 3, count_draw = 4\<rparr>),
      profile_random = (\<lambda>n. \<lparr>risk_draw = 0.2, confidence_draw = 0.9\<rparr>),
      engagement_jitter = (\<lambda>n. 0), profile_jitter = (\<lambda>n. 0)\<rparr>"

section \<open>Properties of the decision policy\<close>

lemma determine_action_keep_iff:
  "(determine_action e r = KEEP) = (0.7 \<le> e \<and> r \<le> 0.3)"
  by (simp add: determine_action_def)

lemma determine_action_remove_iff:
  "(determine_action e r = REMOVE) = (e \<le> 0.3 \<or> 0.7 \<le> r)"
  by (auto simp add: determine_action_def)

text \<open>
  C1. The decision function tests its branches in the order KEEP, MONITOR, REMOVE, MONITOR
  with inclusive comparisons: it returns KEEP exactly when e >= 0.7 and r <= 0.3, REMOVE
  exactly when e <= 0.3 or r >= 0.7 (neither earlier branch can then hold), and MONITOR
  everywhere else. At the five boundary points of the specification it returns KEEP at
  (0.7, 0.3), MONITOR at (0.69, 0.3), REMOVE at (0.2, 0.2) and at (0.6, 0.8), and MONITOR
  at (0.6, 0.6).
\<close>

theorem determine_action_branch_order:
  "determine_action e r =
     (if 0.7 \<le> e \<and> r \<le> 0.3 then KEEP
      else if 0.5 \<le> e \<and> r \<le> 0.5 then MONITOR
      else if e \<le> 0.3 \<or> 0.7 \<le> r then REMOVE
      else MONITOR)
   \<and> (determine_action e r = KEEP) = (0.7 \<le> e \<and> r \<le> 0.3)
   \<and> (determine_action e r = REMOVE) = (e \<le> 0.3 \<or> 0.7 \<le> r)
   \<and> determine_action 0.7 0.3 = KEEP
   \<and> determine_action 0.69 0.3 = MONITOR
   \<and> determine_action 0.2 0.2 = REMOVE
   \<and> determine_action 0.6 0.8 = REMOVE
   \<and> determine_action 0.6 0.6 = MONITOR"
proof -
  have branches: "determine_action e r =
     (if 0.7 \<le> e \<and> r \<le> 0.3 then KEEP
      else if 0.5 \<le> e \<and> r \<le> 0.5 then MONITOR
      else if e \<le> 0.3 \<or> 0.7 \<le> r then REMOVE
      else MONITOR)"
    by (simp add: determine_action_def)
  have points: "determine_action 0.7 0.3 = KEEP" "determine_action 0.69 0.3 = MONITOR"
    "determine_action 0.2 0.2 = REMOVE" "determine_action 0.6 0.8 = REMOVE"
    "determine_action 0.6 0.6 = MONITOR"
    by (simp_all add: determine_action_def)
  from branches points determine_action_keep_iff [of e r] determine_action_remove_iff [of e r]
  show ?thesis by blast
qed

section \<open>Properties of the recommendation generator\<close>

lemma starts_with_iff: "starts_with needle hay = (\<exists>s. hay = needle @ s)"
  by (induction needle hay rule: starts_with.induct) auto

lemma str_contains_iff: "str_contains needle hay = (\<exists>p s. hay = p @ needle @ s)"
proof (induction hay)
  case Nil
  then show ?case by auto
next
  case (Cons h hs)
  show ?case
  proof
    assume "str_contains needle (h # hs)"
    then consider "starts_with needle (h # hs)" | "str_contains needle hs" by auto
    then show "\<exists>p s. h # hs = p @ needle @ s"
    proof cases
      case 1
      then obtain s where "h # hs = needle @ s" by (auto simp: starts_with_iff)
      then have "h # hs = [] @ needle @ s" by simp
      then show ?thesis by blast
    next
      case 2
      then obtain p s where "hs = p @ needle @ s" using Cons.IH by auto
      then have "h # hs = (h # p) @ needle @ s" by simp
      then show ?thesis by blast
    qed
  next
    assume "\<exists>p s. h # hs = p @ needle @ s"
    then obtain p s where ps: "h # hs = p @ needle @ s" by blast
    show "str_contains needle (h # hs)"
    proof (cases p)
      case Nil
      with ps have "starts_with needle (h # hs)" by (auto simp: starts_with_iff)
      then show ?thesis by simp
    next
      case (Cons q qs)
      with ps have "hs = qs @ needle @ s" by simp
      then have "str_contains needle hs" using Cons.IH by blast
      then show ?thesis by simp
    qed
  qed
qed

lemma recommendations_closed_form:
  "generate_recommendations e r a =
     (if e < 0.5 then [low_engagement_notice] else []) @
     (if r > 0.5 then [high_risk_notice] else []) @
     (if str_contains ''private'' (lower a) then [private_notice] else []) @
     (if str_contains ''inactive'' (lower a) then [inactive_notice] else [])"
  by (simp add: generate_recommendations_def)

lemma recommendations_example:
  "generate_recommendations 0.2 0.6 ''User account is currently Inactive'' =
     [low_engagement_notice, high_risk_notice, inactive_notice]"
  by code_simp

lemma private_notice_not_among_others:
  "private_notice \<notin> set [low_engagement_notice, high_risk_notice, inactive_notice]"
  by (simp add: low_engagement_notice_def high_risk_notice_def private_notice_def
      inactive_notice_def)

text \<open>
  C6. The recommendation generator makes four independent checks and appends their notices
  in a fixed order: engagement below 0.5 gives the low-engagement notice, risk above 0.5 the
  high-risk notice, an occurrence of "private" in the lower-cased analysis text the privacy
  notice, an occurrence of "inactive" there the inactivity notice. For engagement 0.2, risk
  0.6 and the analysis "User account is currently Inactive" the result is exactly the
  low-engagement, high-risk and inactivity notices, in this order, without the privacy
  notice.
\<close>

theorem generate_recommendations_checks:
  "generate_recommendations e r a =
     (if e < 0.5 then [low_engagement_notice] else []) @
     (if r > 0.5 then [high_risk_notice] else []) @
     (if \<exists>p s. lower a = p @ ''private'' @ s then [private_notice] else []) @
     (if \<exists>p s. lower a = p @ ''inactive'' @ s then [inactive_notice] else [])
   \<and> generate_recommendations 0.2 0.6 ''User account is currently Inactive'' =
       [low_engagement_notice, high_risk_notice, inactive_notice]
   \<and> private_notice \<notin>
       set (generate_recommendations 0.2 0.6 ''User account is currently Inactive'')"
proof -
  have "generate_recommendations e r a =
     (if e < 0.5 then [low_engagement_notice] else []) @
     (if r > 0.5 then [high_risk_notice] else []) @
     (if \<exists>p s. lower a = p @ ''private'' @ s then [private_notice] else []) @
     (if \<exists>p s. lower a = p @ ''inactive'' @ s then [inactive_notice] else [])"
    unfolding recommendations_closed_form str_contains_iff ..
  moreover have "private_notice \<notin>
       set (generate_recommendations 0.2 0.6 ''User account is currently Inactive'')"
    unfolding recommendations_example by (rule private_notice_not_among_others)
  ultimately show ?thesis using recommendations_example by blast
qed

section \<open>Properties of the retry wrapper\<close>

lemma emit_Nil: "emit [] r = r"
  by (simp add: emit_def)

lemma emit_emit: "emit xs (emit ys r) = emit (xs @ ys) r"
  by (simp add: emit_def)

lemma emit_pair: "emit xs (r, ys) = (r, xs @ ys)"
  by (simp add: emit_def)

lemma fst_emit: "fst (emit xs r) = fst r"
  by (simp add: emit_def)

lemma snd_emit: "snd (emit xs r) = xs @ snd r"
  by (simp add: emit_def)

lemma on_retry_calls_append:
  "on_retry_calls (xs @ ys) = on_retry_calls xs @ on_retry_calls ys"
  by (induction xs rule: on_retry_calls.induct) simp_all

lemma invocations_append: "invocations (xs @ ys) = invocations xs + invocations ys"
  by (induction xs rule: invocations.induct) simp_all

lemma sleeps_append: "sleeps (xs @ ys) = sleeps xs @ sleeps ys"
  by (induction xs rule: sleeps.induct) simp_all

lemma on_retry_calls_call_on_retry:
  "on_retry cfg = Some callback \<Longrightarrow> on_retry_calls (call_on_retry cfg e n) = [(e, n)]"
  by (simp add: call_on_retry_def split: option.splits)

lemma invocations_call_on_retry: "invocations (call_on_retry cfg e n) = 0"
  by (simp add: call_on_retry_def split: option.splits)

lemma sleeps_call_on_retry: "sleeps (call_on_retry cfg e n) = []"
  by (simp add: call_on_retry_def split: option.splits)

lemma wrapper_loop_exhausted:
  "\<not> int attempt < max_attempts cfg \<Longrightarrow>
   wrapper_loop cfg func jitter attempt lr le = after_loop lr le"
  by (subst wrapper_loop.simps) simp

lemma wrapper_loop_returns:
  "int attempt < max_attempts cfg \<Longrightarrow> func attempt = Inr v \<Longrightarrow> \<not> result_flagged cfg v \<Longrightarrow>
   wrapper_loop cfg func jitter attempt lr le = (Inr v, [Invoke attempt])"
  by (subst wrapper_loop.simps) simp

lemma wrapper_loop_flagged_retry:
  "int attempt < max_attempts cfg - 1 \<Longrightarrow> func attempt = Inr v \<Longrightarrow> result_flagged cfg v \<Longrightarrow>
   wrapper_loop cfg func jitter attempt lr le =
     emit [Invoke attempt, LogWarning,
           Sleep (calculate_delay attempt (base_delay cfg) (max_delay cfg) (jitter attempt))]
       (wrapper_loop cfg func jitter (Suc attempt) v le)"
  by (subst wrapper_loop.simps) simp

lemma wrapper_loop_flagged_last:
  "int attempt < max_attempts cfg \<Longrightarrow> \<not> int attempt < max_attempts cfg - 1 \<Longrightarrow>
   func attempt = Inr v \<Longrightarrow> result_flagged cfg v \<Longrightarrow>
   wrapper_loop cfg func jitter attempt lr le = emit [Invoke attempt] (after_loop v le)"
  by (subst wrapper_loop.simps) simp

lemma wrapper_loop_not_caught:
  "int attempt < max_attempts cfg \<Longrightarrow> func attempt = Inl e \<Longrightarrow>
   \<not> except_matches (exceptions cfg) e \<Longrightarrow>
   wrapper_loop cfg func jitter attempt lr le = (Inl e, [Invoke attempt])"
  by (subst wrapper_loop.simps) simp

lemma wrapper_loop_rejected:
  "int attempt < max_attempts cfg \<Longrightarrow> func attempt = Inl e \<Longrightarrow>
   except_matches (exceptions cfg) e \<Longrightarrow> exception_rejected cfg e \<Longrightarrow>
   wrapper_loop cfg func jitter attempt lr le = (Inl e, [Invoke attempt])"
  by (subst wrapper_loop.simps) simp

lemma wrapper_loop_error_retry:
  "int attempt < max_attempts cfg - 1 \<Longrightarrow> func attempt = Inl e \<Longrightarrow>
   except_matches (exceptions cfg) e \<Longrightarrow> \<not> exception_rejected cfg e \<Longrightarrow>
   wrapper_loop cfg func jitter attempt lr le =
     emit ([Invoke attempt, LogWarning] @ call_on_retry cfg e (int attempt + 1) @
           [Sleep (calculate_delay attempt (base_delay cfg) (max_delay cfg) (jitter attempt))])
       (wrapper_loop cfg func jitter (Suc attempt) lr (Some e))"
  by (subst wrapper_loop.simps) simp

lemma wrapper_loop_error_last:
  "int attempt < max_attempts cfg \<Longrightarrow> \<not> int attempt < max_attempts cfg - 1 \<Longrightarrow>
   func attempt = Inl e \<Longrightarrow> except_matches (exceptions cfg) e \<Longrightarrow>
   \<not> exception_rejected cfg e \<Longrightarrow>
   wrapper_loop cfg func jitter attempt lr le = (Inl e, [Invoke attempt, LogError])"
  by (subst wrapper_loop.simps) simp

lemma wrapper_loop_starts_with_invoke:
  assumes "int attempt < max_attempts cfg"
  shows "\<exists>rest. snd (wrapper_loop cfg func jitter attempt lr le) = Invoke attempt # rest"
  using assms by (subst wrapper_loop.simps) (auto simp: emit_def split: sum.splits)

lemma wrapper_loop_retried:
  assumes "attempt_retried cfg func k"
  shows "\<exists>evs lr' le'. wrapper_loop cfg func jitter k lr le =
            emit evs (wrapper_loop cfg func jitter (Suc k) lr' le') \<and> invocations evs = 1"
proof (cases "func k")
  case (Inl e)
  with assms have c: "int k < max_attempts cfg - 1" "except_matches (exceptions cfg) e"
    "\<not> exception_rejected cfg e"
    by (auto simp: attempt_retried_def)
  let ?evs = "[Invoke k, LogWarning] @ call_on_retry cfg e (int k + 1) @
           [Sleep (calculate_delay k (base_delay cfg) (max_delay cfg) (jitter k))]"
  have "wrapper_loop cfg func jitter k lr le =
          emit ?evs (wrapper_loop cfg func jitter (Suc k) lr (Some e))"
    using wrapper_loop_error_retry [of k cfg func e jitter lr le] c Inl by simp
  moreover have "invocations ?evs = 1"
    by (simp add: invocations_append invocations_call_on_retry)
  ultimately show ?thesis by blast
next
  case (Inr v)
  with assms have c: "int k < max_attempts cfg - 1" "result_flagged cfg v"
    by (auto simp: attempt_retried_def)
  let ?evs = "[Invoke k, LogWarning,
           Sleep (calculate_delay k (base_delay cfg) (max_delay cfg) (jitter k))]"
  have "wrapper_loop cfg func jitter k lr le =
          emit ?evs (wrapper_loop cfg func jitter (Suc k) v le)"
    using wrapper_loop_flagged_retry [of k cfg func v jitter lr le] c Inr by simp
  moreover have "invocations ?evs = 1" by simp
  ultimately show ?thesis by blast
qed

lemma run_reaches_attempt:
  "\<forall>i<k. attempt_retried cfg func i \<Longrightarrow>
   \<exists>pre lr le. async_retry cfg func jitter = emit pre (wrapper_loop cfg func jitter k lr le)
      \<and> invocations pre = k"
proof (induction k)
  case 0
  have "async_retry cfg func jitter = emit [] (wrapper_loop cfg func jitter 0 None None)"
    by (simp add: async_retry_def emit_Nil)
  moreover have "invocations [] = 0" by simp
  ultimately show ?case by blast
next
  case (Suc k)
  then obtain pre lr le where run:
    "async_retry cfg func jitter = emit pre (wrapper_loop cfg func jitter k lr le)"
    and n: "invocations pre = k"
    by auto
  from Suc.prems have "attempt_retried cfg func k" by simp
  from wrapper_loop_retried [OF this, of jitter lr le] obtain evs lr' le' where
    step: "wrapper_loop cfg func jitter k lr le =
             emit evs (wrapper_loop cfg func jitter (Suc k) lr' le')"
    and one: "invocations evs = 1"
    by blast
  from run step have "async_retry cfg func jitter =
      emit (pre @ evs) (wrapper_loop cfg func jitter (Suc k) lr' le')"
    by (simp add: emit_emit)
  moreover from n one have "invocations (pre @ evs) = Suc k"
    by (simp add: invocations_append)
  ultimately show ?case by blast
qed

lemma retry_after_two_errors:
  assumes max3: "max_attempts cfg = 3"
    and f0: "func 0 = Inl e1" and f1: "func 1 = Inl e2"
    and r1: "except_matches (exceptions cfg) e1" "\<not> exception_rejected cfg e1"
    and r2: "except_matches (exceptions cfg) e2" "\<not> exception_rejected cfg e2"
  shows "async_retry cfg func jitter =
      emit ([Invoke 0, LogWarning] @ call_on_retry cfg e1 1 @
            [Sleep (calculate_delay 0 (base_delay cfg) (max_delay cfg) (jitter 0))] @
            [Invoke (Suc 0), LogWarning] @ call_on_retry cfg e2 2 @
            [Sleep (calculate_delay (Suc 0) (base_delay cfg) (max_delay cfg) (jitter (Suc 0)))])
        (wrapper_loop cfg func jitter (Suc (Suc 0)) None (Some e2))"
proof -
  from f1 have f1': "func (Suc 0) = Inl e2" by simp
  have second: "wrapper_loop cfg func jitter (Suc 0) None (Some e1) =
      emit ([Invoke (Suc 0), LogWarning] @ call_on_retry cfg e2 2 @
            [Sleep (calculate_delay (Suc 0) (base_delay cfg) (max_delay cfg) (jitter (Suc 0)))])
        (wrapper_loop cfg func jitter (Suc (Suc 0)) None (Some e2))"
    using wrapper_loop_error_retry [of "Suc 0" cfg func e2 jitter None "Some e1"] max3 f1' r2
    by simp
  have first: "wrapper_loop cfg func jitter 0 None None =
      emit ([Invoke 0, LogWarning] @ call_on_retry cfg e1 1 @
            [Sleep (calculate_delay 0 (base_delay cfg) (max_delay cfg) (jitter 0))])
        (wrapper_loop cfg func jitter (Suc 0) None (Some e1))"
    using wrapper_loop_error_retry [of 0 cfg func e1 jitter None None] max3 f0 r1
    by simp
  show ?thesis
    unfolding async_retry_def first second by (simp add: emit_def)
qed

text \<open>
  The statement after the loop tests \<open>last_result is not None\<close>: a third result that is
  \<open>None\<close> and flagged by \<open>retry_on_result\<close> is not returned; the error of the second
  attempt is raised instead.
\<close>

lemma flagged_none_after_two_errors:
  assumes "max_attempts cfg = 3"
    and "func 0 = Inl e1" and "func 1 = Inl e2" and f2: "func 2 = Inr None"
    and "except_matches (exceptions cfg) e1" "\<not> exception_rejected cfg e1"
    and "except_matches (exceptions cfg) e2" "\<not> exception_rejected cfg e2"
    and flagged: "result_flagged cfg None"
  shows "fst (async_retry cfg func jitter) = Inl e2"
proof -
  from f2 have f2': "func (Suc (Suc 0)) = Inr None" by (simp add: numeral_2_eq_2)
  have "wrapper_loop cfg func jitter (Suc (Suc 0)) None (Some e2) =
      (Inl e2, [Invoke (Suc (Suc 0))])"
    using assms(1) f2' flagged
    by (subst wrapper_loop.simps) (simp add: after_loop_def emit_def)
  then show ?thesis
    unfolding retry_after_two_errors [OF assms(1-3) assms(5-8)] by (simp add: emit_def)
qed

text \<open>
  C3. With \<open>max_attempts = 3\<close>, when the first two invocations raise errors that the
  wrapper retries (caught by the \<open>except\<close> clause and not rejected by
  \<open>retry_on_exception\<close>) and the third returns a value, the wrapper returns that value, has
  invoked the operation three times, and has called \<open>on_retry\<close> exactly twice, with the two
  errors and the attempt numbers 1 and 2. The returned value may be any value except a
  \<open>None\<close> that \<open>retry_on_result\<close> flags (see \<open>flagged_none_after_two_errors\<close>); without
  \<open>retry_on_result\<close> it is any value.
\<close>

theorem retry_succeeds_on_third_attempt:
  assumes max3: "max_attempts cfg = 3"
    and f0: "func 0 = Inl e1" and f1: "func 1 = Inl e2" and f2: "func 2 = Inr v"
    and r1: "except_matches (exceptions cfg) e1" "\<not> exception_rejected cfg e1"
    and r2: "except_matches (exceptions cfg) e2" "\<not> exception_rejected cfg e2"
    and ok: "\<not> (result_flagged cfg v \<and> v = None)"
    and cb: "on_retry cfg = Some callback"
  shows "fst (async_retry cfg func jitter) = Inr v
       \<and> on_retry_calls (snd (async_retry cfg func jitter)) = [(e1, 1), (e2, 2)]
       \<and> invocations (snd (async_retry cfg func jitter)) = 3"
proof -
  from f2 have f2': "func (Suc (Suc 0)) = Inr v" by (simp add: numeral_2_eq_2)
  have third: "wrapper_loop cfg func jitter (Suc (Suc 0)) None (Some e2) =
      (Inr v, [Invoke (Suc (Suc 0))])"
  proof (cases "result_flagged cfg v")
    case True
    with ok obtain x where "v = Some x" by (cases v) auto
    with True max3 f2' show ?thesis
      by (subst wrapper_loop.simps) (simp add: after_loop_def emit_def)
  next
    case False
    with max3 f2' show ?thesis by (subst wrapper_loop.simps) simp
  qed
  have run: "async_retry cfg func jitter =
      (Inr v, [Invoke 0, LogWarning] @ call_on_retry cfg e1 1 @
            [Sleep (calculate_delay 0 (base_delay cfg) (max_delay cfg) (jitter 0))] @
            [Invoke (Suc 0), LogWarning] @ call_on_retry cfg e2 2 @
            [Sleep (calculate_delay (Suc 0) (base_delay cfg) (max_delay cfg) (jitter (Suc 0)))] @
            [Invoke (Suc (Suc 0))])"
    unfolding retry_after_two_errors [OF max3 f0 f1 r1 r2] third by (simp add: emit_def)
  show ?thesis
    unfolding run
    by (simp add: on_retry_calls_append invocations_append
        on_retry_calls_call_on_retry [OF cb] invocations_call_on_retry)
qed

theorem retry_succeeds_on_third_attempt_witness:
  "fst (async_retry (evaluator_retry_config\<lparr>on_retry := Some (\<lambda>e n. None)\<rparr>)
          (\<lambda>n. if n < 2 then Inl (PyExc ConnectionError ''reset'') else Inr (Some (7::int)))
          (\<lambda>n. 0)) = Inr (Some 7)
   \<and> on_retry_calls (snd (async_retry (evaluator_retry_config\<lparr>on_retry := Some (\<lambda>e n. None)\<rparr>)
          (\<lambda>n. if n < 2 then Inl (PyExc ConnectionError ''reset'') else Inr (Some (7::int)))
          (\<lambda>n. 0))) =
       [(PyExc ConnectionError ''reset'', 1), (PyExc ConnectionError ''reset'', 2)]
   \<and> invocations (snd (async_retry (evaluator_retry_config\<lparr>on_retry := Some (\<lambda>e n. None)\<rparr>)
          (\<lambda>n. if n < 2 then Inl (PyExc ConnectionError ''reset'') else Inr (Some (7::int)))
          (\<lambda>n. 0))) = 3"
  using retry_succeeds_on_third_attempt
    [of "evaluator_retry_config\<lparr>on_retry := Some (\<lambda>e n. None)\<rparr>"
        "\<lambda>n. if n < 2 then Inl (PyExc ConnectionError ''reset'') else Inr (Some (7::int))"
        "PyExc ConnectionError ''reset''" "PyExc ConnectionError ''reset''" "Some 7"
        "\<lambda>e n. None" "\<lambda>n. 0"]
  by (simp add: evaluator_retry_config_def except_matches_def exception_rejected_def
      result_flagged_def)

text \<open>
  C4. When the first invocation raises an error whose class is not among the configured
  exception classes (nor a subclass of one), the wrapper propagates that error at once: the
  operation has been invoked once, and nothing was logged, called back or slept.
\<close>

theorem non_retryable_error_propagates:
  assumes "0 < max_attempts cfg" and "func 0 = Inl e"
    and "\<not> except_matches (exceptions cfg) e"
  shows "async_retry cfg func jitter = (Inl e, [Invoke 0])
       \<and> sleeps (snd (async_retry cfg func jitter)) = []
       \<and> invocations (snd (async_retry cfg func jitter)) = 1"
  using assms by (simp add: async_retry_def wrapper_loop_not_caught)

theorem non_retryable_error_propagates_witness:
  "async_retry (evaluator_retry_config :: int retry_config)
     (\<lambda>n. Inl (PyExc ValueError ''bad input'')) (\<lambda>n. 0) =
     (Inl (PyExc ValueError ''bad input''), [Invoke 0])
   \<and> sleeps (snd (async_retry (evaluator_retry_config :: int retry_config)
       (\<lambda>n. Inl (PyExc ValueError ''bad input'')) (\<lambda>n. 0))) = []
   \<and> invocations (snd (async_retry (evaluator_retry_config :: int retry_config)
       (\<lambda>n. Inl (PyExc ValueError ''bad input'')) (\<lambda>n. 0))) = 1"
  using non_retryable_error_propagates
    [of "evaluator_retry_config :: int retry_config"
        "\<lambda>n. Inl (PyExc ValueError ''bad input'')" "PyExc ValueError ''bad input''" "\<lambda>n. 0"]
  by (simp add: evaluator_retry_config_def except_matches_def)

text \<open>
  C5. When a run reaches the attempt with 0-based index \<open>attempt\<close>, more attempts remain,
  and the invocation raises an error the wrapper retries, then the run logs a warning, calls
  \<open>on_retry\<close> if there is one, and sleeps for
  \<open>min (base_delay * 2 ^ attempt + jitter) max_delay\<close> before it invokes the operation again;
  \<open>jitter attempt\<close> stands for the value drawn by \<open>random.uniform(0, 1)\<close> in that iteration.
\<close>

theorem retry_backoff_delay:
  assumes reached: "\<forall>i<attempt. attempt_retried cfg func i"
    and remain: "int attempt < max_attempts cfg - 1"
    and fails: "func attempt = Inl e"
    and caught: "except_matches (exceptions cfg) e"
    and accepted: "\<not> exception_rejected cfg e"
  shows "\<exists>pre rest. snd (async_retry cfg func jitter) =
            pre @ [Invoke attempt, LogWarning] @ call_on_retry cfg e (int attempt + 1) @
            [Sleep (min (base_delay cfg * 2 ^ attempt + jitter attempt) (max_delay cfg)),
             Invoke (Suc attempt)] @ rest
          \<and> invocations pre = attempt"
proof -
  from run_reaches_attempt [OF reached, of jitter] obtain pre lr le where
    run: "async_retry cfg func jitter = emit pre (wrapper_loop cfg func jitter attempt lr le)"
    and n: "invocations pre = attempt"
    by blast
  have step: "wrapper_loop cfg func jitter attempt lr le =
     emit ([Invoke attempt, LogWarning] @ call_on_retry cfg e (int attempt + 1) @
           [Sleep (calculate_delay attempt (base_delay cfg) (max_delay cfg) (jitter attempt))])
       (wrapper_loop cfg func jitter (Suc attempt) lr (Some e))"
    using wrapper_loop_error_retry [of attempt cfg func e jitter lr le]
      remain fails caught accepted by simp
  from remain have "int (Suc attempt) < max_attempts cfg" by simp
  from wrapper_loop_starts_with_invoke [OF this, of func jitter lr "Some e"] obtain rest where
    nxt: "snd (wrapper_loop cfg func jitter (Suc attempt) lr (Some e)) = Invoke (Suc attempt) # rest"
    by blast
  from run step nxt have "snd (async_retry cfg func jitter) =
            pre @ [Invoke attempt, LogWarning] @ call_on_retry cfg e (int attempt + 1) @
            [Sleep (min (base_delay cfg * 2 ^ attempt + jitter attempt) (max_delay cfg)),
             Invoke (Suc attempt)] @ rest"
    by (simp add: snd_emit calculate_delay_def)
  with n show ?thesis by blast
qed

theorem retry_backoff_delay_witness:
  "\<exists>pre rest. snd (async_retry (evaluator_retry_config :: int retry_config)
        (\<lambda>n. Inl (PyExc TimeoutError ''slow'')) (\<lambda>n. 0.5)) =
      pre @ [Invoke 1, LogWarning, Sleep 2.5, Invoke 2] @ rest
    \<and> invocations pre = 1"
  using retry_backoff_delay
    [of 1 "evaluator_retry_config :: int retry_config"
        "\<lambda>n. Inl (PyExc TimeoutError ''slow'')" "PyExc TimeoutError ''slow''" "\<lambda>n. 0.5"]
  by (simp add: evaluator_retry_config_def except_matches_def exception_rejected_def
      attempt_retried_def call_on_retry_def numeral_2_eq_2)

text \<open>
  C10. With \<open>max_attempts = 0\<close> the wrapper returns \<open>None\<close>: the operation is never
  invoked, no error is raised and nothing else happens.
\<close>

theorem zero_attempts_returns_none:
  assumes "max_attempts cfg = 0"
  shows "async_retry cfg func jitter = (Inr None, [])"
  using assms by (simp add: async_retry_def wrapper_loop_exhausted after_loop_def)

theorem zero_attempts_returns_none_witness:
  "async_retry (evaluator_retry_config\<lparr>max_attempts := 0\<rparr>)
     (\<lambda>n. Inr (Some (1::int))) (\<lambda>n. 0) = (Inr None, [])"
  using zero_attempts_returns_none
    [of "evaluator_retry_config\<lparr>max_attempts := 0\<rparr>" "\<lambda>n. Inr (Some (1::int))" "\<lambda>n. 0"]
  by (simp add: evaluator_retry_config_def)

section \<open>Properties of the engagement checker\<close>

lemma sum_list_unit_bounds:
  "\<forall>x\<in>set xs. 0 \<le> x \<and> x \<le> (1::real) \<Longrightarrow> 0 \<le> sum_list xs \<and> sum_list xs \<le> real (length xs)"
  by (induction xs) auto

lemma mean_unit_bounds:
  assumes "xs \<noteq> []" and "\<forall>x\<in>set xs. 0 \<le> x \<and> x \<le> (1::real)"
  shows "0 \<le> sum_list xs / real (length xs) \<and> sum_list xs / real (length xs) \<le> 1"
proof -
  from assms(1) have pos: "0 < real (length xs)" by simp
  from sum_list_unit_bounds [OF assms(2)] pos show ?thesis
    by (simp add: divide_le_eq)
qed

lemma except_matches_evaluator_zero_division:
  "\<not> except_matches (exceptions evaluator_retry_config) (PyExc ZeroDivisionError msg)"
  by (simp add: except_matches_def evaluator_retry_config_def)

lemma evaluator_run_error:
  assumes "func 0 = Inl e"
    and "\<not> except_matches [ConnectionError, TimeoutError] e"
  shows "async_retry evaluator_retry_config func jitter = (Inl e, [Invoke 0])"
  using assms
  by (simp add: async_retry_def wrapper_loop_not_caught evaluator_retry_config_def)

lemma evaluator_run_value:
  assumes "func 0 = Inr v"
  shows "async_retry evaluator_retry_config func jitter = (Inr v, [Invoke 0])"
  using assms
  by (simp add: async_retry_def wrapper_loop_returns evaluator_retry_config_def
      result_flagged_def)

lemma check_engagement_nonempty:
  assumes "dict_get mock_data (dict_get follower_data ''username'' ''Unknown'')
             [(''likes'', likes_draw (draws 0)), (''comments'', comments_draw (draws 0)),
              (''shares'', shares_draw (draws 0)), (''saves'', saves_draw (draws 0))] = m"
    and "m \<noteq> []"
  shows "check_engagement mock_data now draws jitter follower_data =
     (Inr (Some \<lparr>score = sum_list (map snd m) / real (length m), metrics = m,
                 last_interaction = Some (now - real_of_int (days_draw (draws 0))),
                 interaction_count = count_draw (draws 0)\<rparr>), [Invoke 0])"
  unfolding check_engagement_def
  by (rule evaluator_run_value) (use assms in \<open>simp add: check_engagement_body_def true_div_def\<close>)

text \<open>
  With a metrics mapping that is not empty, the score is the arithmetic mean of its values,
  and lies in [0, 1] when they do.
\<close>

lemma check_engagement_score_is_mean:
  assumes "mock_data (dict_get follower_data ''username'' ''Unknown'') = Some m"
    and "m \<noteq> []"
    and "\<forall>v\<in>set (map snd m). 0 \<le> v \<and> v \<le> 1"
  shows "\<exists>res. fst (check_engagement mock_data now draws jitter follower_data) = Inr (Some res)
           \<and> metrics res = m
           \<and> score res = sum_list (map snd m) / real (length m)
           \<and> 0 \<le> score res \<and> score res \<le> 1"
proof -
  from assms(1) have "dict_get mock_data (dict_get follower_data ''username'' ''Unknown'')
             [(''likes'', likes_draw (draws 0)), (''comments'', comments_draw (draws 0)),
              (''shares'', shares_draw (draws 0)), (''saves'', saves_draw (draws 0))] = m"
    by (simp add: dict_get_def)
  from check_engagement_nonempty [of mock_data follower_data draws m now jitter] this assms(2)
  have run: "check_engagement mock_data now draws jitter follower_data =
     (Inr (Some \<lparr>score = sum_list (map snd m) / real (length m), metrics = m,
                 last_interaction = Some (now - real_of_int (days_draw (draws 0))),
                 interaction_count = count_draw (draws 0)\<rparr>), [Invoke 0])"
    by simp
  from assms(2) have "map snd m \<noteq> []" by simp
  from mean_unit_bounds [OF this assms(3)]
  have "0 \<le> sum_list (map snd m) / real (length m)
      \<and> sum_list (map snd m) / real (length m) \<le> 1"
    by simp
  with run show ?thesis by simp
qed

text \<open>
  C2. The engagement check divides the sum of the metric values by their number. For the
  empty mapping this is a division by zero: the call raises \<open>ZeroDivisionError\<close>, which the
  retry wrapper does not catch, after a single invocation; no score 0 is returned. (For a
  mapping that is not empty the score is the mean, see \<open>check_engagement_score_is_mean\<close>.)
\<close>

theorem check_engagement_empty_metrics_raises:
  assumes "mock_data (dict_get follower_data ''username'' ''Unknown'') = Some []"
  shows "check_engagement mock_data now draws jitter follower_data =
     (Inl (PyExc ZeroDivisionError ''division by zero''), [Invoke 0])"
  unfolding check_engagement_def
  by (rule evaluator_run_error)
    (use assms in \<open>simp_all add: check_engagement_body_def true_div_def dict_get_def
       except_matches_def\<close>)

theorem check_engagement_empty_metrics_raises_witness:
  "check_engagement [''ghost'' \<mapsto> []] 0
     (\<lambda>n. \<lparr>likes_draw = 0.5, comments_draw = 0.5, shares_draw = 0.5, saves_draw = 0.5,
            days_draw = 1, count_draw = 2\<rparr>)
     (\<lambda>n. 0) [''username'' \<mapsto> ''ghost''] =
     (Inl (PyExc ZeroDivisionError ''division by zero''), [Invoke 0])"
  using check_engagement_empty_metrics_raises
    [of "[''ghost'' \<mapsto> []]" "[''username'' \<mapsto> ''ghost'']" 0
        "\<lambda>n. \<lparr>likes_draw = 0.5, comments_draw = 0.5, shares_draw = 0.5, saves_draw = 0.5,
            days_draw = 1, count_draw = 2\<rparr>" "\<lambda>n. 0"]
  by (simp add: dict_get_def)

section \<open>Properties of the risk score\<close>

lemma calculate_risk_score_formula:
  "calculate_risk_score default_weights m =
     (0.3 * authenticity_score m + 0.3 * engagement_potential m + 0.2 * risk_level m
        + 0.2 * interaction_pattern m + 0.2 * account_age m) / 5"
  by (simp add: calculate_risk_score_def default_weights_def np_mean_def)

text \<open>
  C9. For metrics whose five fields lie in [0, 1] the risk score of
  \<open>_calculate_risk_score\<close> lies in [0, 0.24]: it is the plain mean of five terms, each a field
  scaled by a weight of at most 0.3. So it stays below the threshold 0.7, and so does the
  score that \<open>analyze_profile_risk\<close> returns.
\<close>

theorem risk_score_range:
  assumes "0 \<le> authenticity_score m" "authenticity_score m \<le> 1"
    and "0 \<le> engagement_potential m" "engagement_potential m \<le> 1"
    and "0 \<le> risk_level m" "risk_level m \<le> 1"
    and "0 \<le> interaction_pattern m" "interaction_pattern m \<le> 1"
    and "0 \<le> account_age m" "account_age m \<le> 1"
  shows "0 \<le> calculate_risk_score default_weights m
       \<and> calculate_risk_score default_weights m \<le> 0.24
       \<and> calculate_risk_score default_weights m < 0.7
       \<and> analyze_profile_risk default_weights profile_id < 0.7"
proof -
  have "analyze_profile_risk default_weights profile_id = 0.15"
    by (simp add: analyze_profile_risk_def gather_metrics_def calculate_risk_score_formula)
  with assms show ?thesis
    unfolding calculate_risk_score_formula by simp
qed

theorem risk_score_range_witness:
  "0 \<le> calculate_risk_score default_weights
          \<lparr>authenticity_score = 1, engagement_potential = 1, risk_level = 1,
           interaction_pattern = 1, account_age = 1\<rparr>
   \<and> calculate_risk_score default_weights
          \<lparr>authenticity_score = 1, engagement_potential = 1, risk_level = 1,
           interaction_pattern = 1, account_age = 1\<rparr> \<le> 0.24
   \<and> calculate_risk_score default_weights
          \<lparr>authenticity_score = 1, engagement_potential = 1, risk_level = 1,
           interaction_pattern = 1, account_age = 1\<rparr> = 0.24
   \<and> analyze_profile_risk default_weights ''follower_1'' < 0.7"
  using risk_score_range
    [of "\<lparr>authenticity_score = 1, engagement_potential = 1, risk_level = 1,
           interaction_pattern = 1, account_age = 1\<rparr>" "''follower_1''"]
  by (simp add: calculate_risk_score_formula)

lemma default_weights_sum:
  "activity default_weights + content default_weights + interaction default_weights
     + age default_weights = 1"
  by (simp add: default_weights_def)

lemma analyze_profile_risk_value: "analyze_profile_risk default_weights profile_id = 0.15"
  by (simp add: analyze_profile_risk_def gather_metrics_def calculate_risk_score_formula)

lemma spec_weighted_mean_dummy: "spec_weighted_mean default_weights 0.5 0.6 0.8 0.9 = 0.67"
  by (simp add: spec_weighted_mean_def default_weights_def)

lemma spec_weighted_mean_lower_bound:
  assumes "c \<le> a1" "c \<le> a2" "c \<le> a3" "c \<le> a4"
  shows "c \<le> spec_weighted_mean default_weights a1 a2 a3 a4"
  using assms by (simp add: spec_weighted_mean_def default_weights_def)

text \<open>
  C7. The weights sum to 1, but the risk score is not the weighted mean of four sub-signals:
  it is a fifth of the sum of five weight-scaled fields, the weight \<open>interaction\<close> being used
  for two of them. For the metrics that \<open>analyze_profile_risk\<close> gathers the score is 0.15,
  where the weighted mean of the four sub-signals 0.5, 0.6, 0.8 and 0.9 is 0.67.
\<close>

theorem risk_score_is_not_weighted_mean:
  "analyze_profile_risk default_weights profile_id = 0.15
   \<and> spec_weighted_mean default_weights 0.5 0.6 0.8 0.9 = 0.67
   \<and> calculate_risk_score default_weights m =
       (0.3 * authenticity_score m + 0.3 * engagement_potential m + 0.2 * risk_level m
          + 0.2 * interaction_pattern m + 0.2 * account_age m) / 5
   \<and> activity default_weights + content default_weights + interaction default_weights
       + age default_weights = 1"
  using analyze_profile_risk_value [of profile_id] spec_weighted_mean_dummy
    calculate_risk_score_formula [of m] default_weights_sum
  by blast

section \<open>Properties of the pipeline\<close>

lemma dict_get_username_unknown:
  "follower_data ''username'' = None \<Longrightarrow>
   dict_get (follower_data(''username'' \<mapsto> ''Unknown'')) ''username'' ''Unknown'' =
   dict_get follower_data ''username'' ''Unknown''"
  by (simp add: dict_get_def)

lemma check_engagement_cases:
  "(\<exists>res. check_engagement mock_data now draws jitter follower_data =
            (Inr (Some res), [Invoke 0]))
   \<or> check_engagement mock_data now draws jitter follower_data =
        (Inl (PyExc ZeroDivisionError ''division by zero''), [Invoke 0])"
proof -
  define m where "m = dict_get mock_data (dict_get follower_data ''username'' ''Unknown'')
             [(''likes'', likes_draw (draws 0)), (''comments'', comments_draw (draws 0)),
              (''shares'', shares_draw (draws 0)), (''saves'', saves_draw (draws 0))]"
  show ?thesis
  proof (cases "m = []")
    case True
    have "check_engagement mock_data now draws jitter follower_data =
        (Inl (PyExc ZeroDivisionError ''division by zero''), [Invoke 0])"
      unfolding check_engagement_def
      by (rule evaluator_run_error)
        (use True m_def in \<open>simp_all add: check_engagement_body_def true_div_def
           except_matches_def\<close>)
    then show ?thesis by blast
  next
    case False
    from check_engagement_nonempty [of mock_data follower_data draws m now jitter]
      m_def False
    show ?thesis by blast
  qed
qed

lemma analyze_profile_body_cases:
  "(\<exists>res. analyze_profile_body mock_data draws follower_data = Inr (Some res))
   \<or> (\<exists>key. analyze_profile_body mock_data draws follower_data = Inl (PyExc KeyError key))"
  by (auto simp: analyze_profile_body_def getitem_def Let_def split: option.splits)

lemma analyze_profile_cases:
  "(\<exists>res. analyze_profile mock_data draws jitter follower_data = (Inr (Some res), [Invoke 0]))
   \<or> (\<exists>key. analyze_profile mock_data draws jitter follower_data =
               (Inl (PyExc KeyError key), [Invoke 0]))"
proof -
  from analyze_profile_body_cases [of mock_data "draws 0" follower_data]
  consider res where "analyze_profile_body mock_data (draws 0) follower_data = Inr (Some res)"
    | key where "analyze_profile_body mock_data (draws 0) follower_data = Inl (PyExc KeyError key)"
    by blast
  then show ?thesis
  proof cases
    case 1
    then have "analyze_profile mock_data draws jitter follower_data =
        (Inr (Some res), [Invoke 0])"
      unfolding analyze_profile_def by (intro evaluator_run_value) simp
    then show ?thesis by blast
  next
    case 2
    then have "analyze_profile mock_data draws jitter follower_data =
        (Inl (PyExc KeyError key), [Invoke 0])"
      unfolding analyze_profile_def
      by (intro evaluator_run_error) (simp_all add: except_matches_def)
    then show ?thesis by blast
  qed
qed

lemma analyze_profile_default:
  assumes "mock_data (dict_get follower_data ''username'' ''Unknown'') = None"
  shows "analyze_profile mock_data draws jitter follower_data =
     (Inr (Some \<lparr>ProfileResult.risk_score = risk_draw (draws 0),
                 analysis = ''Standard profile with normal activity'',
                 confidence = confidence_draw (draws 0)\<rparr>), [Invoke 0])"
  unfolding analyze_profile_def
  by (rule evaluator_run_value)
    (use assms in \<open>simp add: analyze_profile_body_def getitem_def dict_get_def\<close>)

lemma audit_follower_no_value_error:
  "fst (audit_follower env follower_data) \<noteq> Inl (PyExc ValueError msg)"
  using check_engagement_cases [of "engagement_mock_data env" "clock env"
      "engagement_random env" "engagement_jitter env" follower_data]
    analyze_profile_cases [of "profile_mock_data env" "profile_random env"
      "profile_jitter env" follower_data]
  by (auto simp: audit_follower_def Let_def)

lemma audit_follower_username_default:
  assumes "follower_data ''username'' = None"
  shows "audit_follower env follower_data =
         audit_follower env (follower_data(''username'' \<mapsto> ''Unknown''))"
proof -
  let ?fd = "follower_data(''username'' \<mapsto> ''Unknown'')"
  have u: "dict_get ?fd ''username'' ''Unknown'' = dict_get follower_data ''username'' ''Unknown''"
    using dict_get_username_unknown [of follower_data] assms by simp
  have eng: "check_engagement mock_data now draws jitter ?fd =
             check_engagement mock_data now draws jitter follower_data"
    for mock_data now draws jitter
    by (simp add: check_engagement_def check_engagement_body_def u)
  have prof: "analyze_profile mock_data draws jitter ?fd =
              analyze_profile mock_data draws jitter follower_data"
    for mock_data draws jitter
    by (simp add: analyze_profile_def analyze_profile_body_def u)
  show ?thesis
    unfolding audit_follower_def eng prof u ..
qed

lemma audit_follower_unknown_result:
  assumes "follower_data ''username'' = None"
    and "engagement_mock_data env ''Unknown'' = None"
    and "profile_mock_data env ''Unknown'' = None"
  shows "\<exists>res. fst (audit_follower env follower_data) = Inr res \<and> username res = ''Unknown''"
proof -
  from assms(1) have u: "dict_get follower_data ''username'' ''Unknown'' = ''Unknown''"
    by (simp add: dict_get_def)
  have eng: "\<exists>res. check_engagement (engagement_mock_data env) (clock env)
      (engagement_random env) (engagement_jitter env) follower_data = (Inr (Some res), [Invoke 0])"
    using check_engagement_nonempty [of "engagement_mock_data env" follower_data
        "engagement_random env"
        "[(''likes'', likes_draw (engagement_random env 0)),
          (''comments'', comments_draw (engagement_random env 0)),
          (''shares'', shares_draw (engagement_random env 0)),
          (''saves'', saves_draw (engagement_random env 0))]"
        "clock env" "engagement_jitter env"]
      assms(2) u
    by (simp add: dict_get_def)
  have prof: "\<exists>res. analyze_profile (profile_mock_data env) (profile_random env)
      (profile_jitter env) follower_data = (Inr (Some res), [Invoke 0])"
    using analyze_profile_default [of "profile_mock_data env" follower_data] assms(3) u
    by simp
  from eng prof u show ?thesis
    by (auto simp: audit_follower_def Let_def)
qed

lemma validate_missing_username:
  "follower_data ''username'' = None \<Longrightarrow>
   validate_required_fields follower_data [''username''] =
     Inl (PyExc ValueError ''Missing required fields: username'')"
  by (simp add: validate_required_fields_def)

lemma process_json_data_missing_username:
  "follower_data ''username'' = None \<Longrightarrow>
   process_json_data [JsonObject follower_data] =
     Inl (PyExc ValueError ''Missing username in follower data'')"
  by (simp add: process_json_data_def)

lemma audit_follower_never_sleeps:
  "sleeps (snd (audit_follower env follower_data)) = []
   \<and> invocations (snd (audit_follower env follower_data)) \<le> 2"
  using check_engagement_cases [of "engagement_mock_data env" "clock env"
      "engagement_random env" "engagement_jitter env" follower_data]
    analyze_profile_cases [of "profile_mock_data env" "profile_random env"
      "profile_jitter env" follower_data]
  by (auto simp: audit_follower_def Let_def)

lemma audit_follower_unknown_when_evaluators_succeed:
  assumes "follower_data ''username'' = None"
    and "fst (check_engagement (engagement_mock_data env) (clock env) (engagement_random env)
               (engagement_jitter env) follower_data) = Inr (Some er)"
    and "fst (analyze_profile (profile_mock_data env) (profile_random env)
               (profile_jitter env) follower_data) = Inr (Some pr)"
  shows "fst (audit_follower env follower_data) =
     Inr \<lparr>username = ''Unknown'',
          action = action_value (determine_action (score er) (ProfileResult.risk_score pr)),
          reason = analysis pr,
          engagement_score = score er,
          risk_score = ProfileResult.risk_score pr,
          recommendations =
            generate_recommendations (score er) (ProfileResult.risk_score pr) (analysis pr)\<rparr>"
  using assms by (simp add: audit_follower_def Let_def dict_get_def)

lemma audit_follower_example:
  "audit_follower example_env Map.empty =
     (Inr \<lparr>username = ''Unknown'', action = ''keep'',
           reason = ''Standard profile with normal activity'',
           engagement_score = 0.8, risk_score = 0.2, recommendations = []\<rparr>,
      [Invoke 0, Invoke 0, AuditLog ''Unknown'' 0.8 0.2 ''keep''
         ''Standard profile with normal activity''])"
proof -
  have eng: "check_engagement Map.empty 0 (engagement_random example_env) (\<lambda>n. 0) Map.empty =
     (Inr (Some \<lparr>score = 0.8,
                 metrics = [(''likes'', 0.9), (''comments'', 0.8), (''shares'', 0.7),
                            (''saves'', 0.8)],
                 last_interaction = Some (- 3), interaction_count = 4\<rparr>), [Invoke 0])"
    using check_engagement_nonempty [of Map.empty Map.empty "engagement_random example_env"
        "[(''likes'', 0.9), (''comments'', 0.8), (''shares'', 0.7), (''saves'', 0.8)]"
        0 "\<lambda>n. 0"]
    by (simp add: dict_get_def example_env_def)
  have prof: "analyze_profile Map.empty (profile_random example_env) (\<lambda>n. 0) Map.empty =
     (Inr (Some \<lparr>ProfileResult.risk_score = 0.2,
                 analysis = ''Standard profile with normal activity'',
                 confidence = 0.9\<rparr>), [Invoke 0])"
    using analyze_profile_default [of Map.empty Map.empty "profile_random example_env" "\<lambda>n. 0"]
    by (simp add: dict_get_def example_env_def)
  have recs: "generate_recommendations (4 / 5) (1 / 5)
      ''Standard profile with normal activity'' = []"
    by code_simp
  have env: "engagement_mock_data example_env = Map.empty"
    "profile_mock_data example_env = Map.empty" "clock example_env = 0"
    "engagement_jitter example_env = (\<lambda>n. 0)" "profile_jitter example_env = (\<lambda>n. 0)"
    by (simp_all add: example_env_def)
  show ?thesis
    unfolding audit_follower_def env eng prof
    by (simp add: dict_get_def Let_def determine_action_def recs)
qed

text \<open>
  C8. The pipeline does not validate a follower record. A record without the key
  \<open>username\<close> raises no validation failure: it is evaluated exactly as the record with the
  username \<open>Unknown\<close>, the run never raises \<open>ValueError\<close>, and whenever both evaluators
  succeed (always, when the mock data has no entry of that name) it produces an audit
  result for \<open>Unknown\<close>. Nothing is retried: the run never sleeps and invokes each
  evaluator at most once. For the same record \<open>validate_required_fields\<close> and
  \<open>process_json_data\<close>, which the dashboard applies to JSON uploads only, raise
  \<open>ValueError\<close>.
\<close>

theorem missing_username_is_audited:
  assumes "follower_data ''username'' = None"
  shows "audit_follower env follower_data =
           audit_follower env (follower_data(''username'' \<mapsto> ''Unknown''))
       \<and> (\<forall>msg. fst (audit_follower env follower_data) \<noteq> Inl (PyExc ValueError msg))
       \<and> (\<forall>er pr.
             fst (check_engagement (engagement_mock_data env) (clock env)
                   (engagement_random env) (engagement_jitter env) follower_data) = Inr (Some er)
             \<and> fst (analyze_profile (profile_mock_data env) (profile_random env)
                   (profile_jitter env) follower_data) = Inr (Some pr)
             \<longrightarrow> fst (audit_follower env follower_data) =
                   Inr \<lparr>username = ''Unknown'',
                        action = action_value
                          (determine_action (score er) (ProfileResult.risk_score pr)),
                        reason = analysis pr,
                        engagement_score = score er,
                        risk_score = ProfileResult.risk_score pr,
                        recommendations = generate_recommendations (score er)
                          (ProfileResult.risk_score pr) (analysis pr)\<rparr>)
       \<and> (engagement_mock_data env ''Unknown'' = None \<and> profile_mock_data env ''Unknown'' = None
            \<longrightarrow> (\<exists>res. fst (audit_follower env follower_data) = Inr res
                         \<and> username res = ''Unknown''))
       \<and> sleeps (snd (audit_follower env follower_data)) = []
       \<and> invocations (snd (audit_follower env follower_data)) \<le> 2
       \<and> validate_required_fields follower_data [''username''] =
           Inl (PyExc ValueError ''Missing required fields: username'')
       \<and> process_json_data [JsonObject follower_data] =
           Inl (PyExc ValueError ''Missing username in follower data'')"
proof -
  note a = audit_follower_username_default [of follower_data env]
  note b = audit_follower_no_value_error [of env follower_data]
  note c = audit_follower_unknown_when_evaluators_succeed [of follower_data env]
  note d = audit_follower_unknown_result [of follower_data env]
  note e = audit_follower_never_sleeps [of env follower_data]
  note f = validate_missing_username [of follower_data]
  note g = process_json_data_missing_username [of follower_data]
  from assms a b c d e f g show ?thesis by blast
qed

theorem missing_username_is_audited_witness:
  "audit_follower example_env Map.empty =
     audit_follower example_env [''username'' \<mapsto> ''Unknown'']
   \<and> audit_follower example_env Map.empty =
     (Inr \<lparr>username = ''Unknown'', action = ''keep'',
           reason = ''Standard profile with normal activity'',
           engagement_score = 0.8, risk_score = 0.2, recommendations = []\<rparr>,
      [Invoke 0, Invoke 0, AuditLog ''Unknown'' 0.8 0.2 ''keep''
         ''Standard profile with normal activity''])
   \<and> sleeps (snd (audit_follower example_env Map.empty)) = []
   \<and> validate_required_fields (Map.empty :: string \<rightharpoonup> string) [''username''] =
       Inl (PyExc ValueError ''Missing required fields: username'')
   \<and> process_json_data [JsonObject Map.empty] =
       Inl (PyExc ValueError ''Missing username in follower data'')"
  using missing_username_is_audited [of Map.empty example_env, OF refl]
    audit_follower_example
  by blast

end
